theory Spec2Isabelle
  imports Complex_Main
begin

section \<open>Values decoded from JSON\<close>

text \<open>
  \<^verbatim>\<open>monitor_chzzk.py\<close> works on dictionaries decoded from JSON (the API responses
  and \<^verbatim>\<open>state.json\<close>), so a field may hold any JSON value. A float is kept by
  its exact value: the program only compares floats (with \<^verbatim>\<open>>=\<close>, \<^verbatim>\<open>==\<close>,
  \<^verbatim>\<open>!=\<close> and truth testing), and Python compares an int with a float exactly.
  The keys of a \<open>PDict\<close> are distinct, as the JSON decoder leaves them.
\<close>

datatype pyfloat = Finite rat | PosInf | NegInf | NaN

datatype pyval =
    PNone
  | PBool bool
  | PInt int
  | PFloat pyfloat
  | PStr string
  | PList "pyval list"
  | PDict "(string \<times> pyval) list"

datatype error = TypeError

text \<open>Truth testing, as \<^verbatim>\<open>if x\<close>, \<^verbatim>\<open>x or y\<close> and \<^verbatim>\<open>x and y\<close> do it.\<close>

fun truthy :: "pyval \<Rightarrow> bool" where
  "truthy PNone = False"
| "truthy (PBool b) = b"
| "truthy (PInt i) = (i \<noteq> 0)"
| "truthy (PFloat f) = (f \<noteq> Finite 0)"
| "truthy (PStr s) = (s \<noteq> [])"
| "truthy (PList xs) = (xs \<noteq> [])"
| "truthy (PDict kvs) = (kvs \<noteq> [])"

definition py_or :: "pyval \<Rightarrow> pyval \<Rightarrow> pyval" where
  "py_or a b = (if truthy a then a else b)"

text \<open>
  \<^verbatim>\<open>==\<close> on decoded values: bool, int and float compare by numeric value
  (\<^verbatim>\<open>True == 1 == 1.0\<close>), a float NaN equals nothing, not even itself, lists
  compare element by element and dicts key by key. Inside a list or a dict Python takes
  two elements that are one object as equal before it asks \<^verbatim>\<open>==\<close>. The JSON decoder
  returns one and the same float object for every \<^verbatim>\<open>NaN\<close> it reads, so two NaN
  elements are equal there (\<open>same_nan\<close>); for every other value, being one object
  implies \<^verbatim>\<open>==\<close>.
\<close>

datatype pynum = NumInt int | NumFloat pyfloat

fun as_num :: "pyval \<Rightarrow> pynum option" where
  "as_num (PBool b) = Some (NumInt (if b then 1 else 0))"
| "as_num (PInt i) = Some (NumInt i)"
| "as_num (PFloat f) = Some (NumFloat f)"
| "as_num _ = None"

fun float_eq :: "pyfloat \<Rightarrow> pyfloat \<Rightarrow> bool" where
  "float_eq (Finite a) g = (g = Finite a)"
| "float_eq PosInf g = (g = PosInf)"
| "float_eq NegInf g = (g = NegInf)"
| "float_eq NaN g = False"

fun num_eq :: "pynum \<Rightarrow> pynum \<Rightarrow> bool" where
  "num_eq (NumInt a) (NumInt b) = (a = b)"
| "num_eq (NumInt a) (NumFloat f) = float_eq (Finite (of_int a)) f"
| "num_eq (NumFloat f) (NumInt b) = float_eq f (Finite (of_int b))"
| "num_eq (NumFloat f) (NumFloat g) = float_eq f g"

definition same_nan :: "pyval \<Rightarrow> pyval \<Rightarrow> bool" where
  "same_nan a b = (a = PFloat NaN \<and> b = PFloat NaN)"

fun py_eq :: "pyval \<Rightarrow> pyval \<Rightarrow> bool"
  and py_eq_list :: "pyval list \<Rightarrow> pyval list \<Rightarrow> bool"
  and py_eq_items :: "(string \<times> pyval) list \<Rightarrow> (string \<times> pyval) list \<Rightarrow> bool"
  and py_eq_item :: "string \<Rightarrow> pyval \<Rightarrow> (string \<times> pyval) list \<Rightarrow> bool"
where
  "py_eq PNone b = (b = PNone)"
| "py_eq (PStr s) b = (b = PStr s)"
| "py_eq (PBool x) b =
     (case as_num b of Some n \<Rightarrow> num_eq (NumInt (if x then 1 else 0)) n | None \<Rightarrow> False)"
| "py_eq (PInt i) b = (case as_num b of Some n \<Rightarrow> num_eq (NumInt i) n | None \<Rightarrow> False)"
| "py_eq (PFloat f) b = (case as_num b of Some n \<Rightarrow> num_eq (NumFloat f) n | None \<Rightarrow> False)"
| "py_eq (PList xs) b = (case b of PList ys \<Rightarrow> py_eq_list xs ys | _ \<Rightarrow> False)"
| "py_eq (PDict kvs) b =
     (case b of PDict kws \<Rightarrow> length kvs = length kws \<and> py_eq_items kvs kws | _ \<Rightarrow> False)"
| "py_eq_list [] ys = (ys = [])"
| "py_eq_list (x # xs) ys =
     (case ys of
        [] \<Rightarrow> False
      | y # ys' \<Rightarrow> (same_nan x y \<or> py_eq x y) \<and> py_eq_list xs ys')"
| "py_eq_items [] kws = True"
| "py_eq_items ((k, v) # kvs) kws = (py_eq_item k v kws \<and> py_eq_items kvs kws)"
| "py_eq_item k v [] = False"
| "py_eq_item k v ((k', w) # kws) =
     (if k = k' then same_nan v w \<or> py_eq v w else py_eq_item k v kws)"

definition py_ne :: "pyval \<Rightarrow> pyval \<Rightarrow> bool" where
  "py_ne a b = (\<not> py_eq a b)"

text \<open>\<^verbatim>\<open>isinstance(v, (int, float))\<close>; \<^verbatim>\<open>bool\<close> is a subclass of \<^verbatim>\<open>int\<close>.\<close>

fun is_int_or_float :: "pyval \<Rightarrow> bool" where
  "is_int_or_float (PBool b) = True"
| "is_int_or_float (PInt i) = True"
| "is_int_or_float (PFloat f) = True"
| "is_int_or_float _ = False"

text \<open>
  \<^verbatim>\<open>viewers >= th\<close> for an int \<^verbatim>\<open>th\<close>: a number is compared by value (NaN is not
  \<^verbatim>\<open>>=\<close> anything), every other left operand raises \<^verbatim>\<open>TypeError\<close>.
\<close>

fun py_ge :: "pyval \<Rightarrow> int \<Rightarrow> error + bool" where
  "py_ge (PBool b) th = Inr (th \<le> (if b then 1 else 0))"
| "py_ge (PInt i) th = Inr (th \<le> i)"
| "py_ge (PFloat (Finite r)) th = Inr (of_int th \<le> r)"
| "py_ge (PFloat PosInf) th = Inr True"
| "py_ge (PFloat NegInf) th = Inr False"
| "py_ge (PFloat NaN) th = Inr False"
| "py_ge _ th = Inl TypeError"

text \<open>A dictionary with string keys, \<^verbatim>\<open>d.get(k)\<close> and \<^verbatim>\<open>d.get(k, default)\<close>.\<close>

type_synonym pydict = "string \<rightharpoonup> pyval"

definition dict_get :: "pydict \<Rightarrow> string \<Rightarrow> pyval" where
  "dict_get d k = (case d k of None \<Rightarrow> PNone | Some v \<Rightarrow> v)"

definition dict_get_default :: "pydict \<Rightarrow> string \<Rightarrow> pyval \<Rightarrow> pyval" where
  "dict_get_default d k dflt = (case d k of None \<Rightarrow> dflt | Some v \<Rightarrow> v)"

section \<open>Channel state and events\<close>

text \<open>
  The dictionary \<^verbatim>\<open>new_state\<close> that \<^verbatim>\<open>process_streamer\<close> builds has exactly the
  five keys below. \<^verbatim>\<open>last\<close> is the entry an earlier run stored under the channel id,
  that is an earlier \<^verbatim>\<open>new_state\<close>, or \<^verbatim>\<open>{}\<close> when there is none: \<open>no_last\<close>
  gives what \<^verbatim>\<open>{}\<close> answers to the \<^verbatim>\<open>get\<close> calls of \<^verbatim>\<open>process_streamer\<close>.
  \<^verbatim>\<open>passed_thresholds\<close> is a list of ints: it starts empty and only ever receives
  members of \<^verbatim>\<open>thresholds\<close>, which \<^verbatim>\<open>main\<close> converts with \<^verbatim>\<open>int\<close>.
\<close>

record channel_state =
  is_live :: pyval
  title :: pyval
  category :: pyval
  viewers :: pyval
  passed_thresholds :: "int list"

definition no_last :: channel_state where
  "no_last = \<lparr>is_live = PNone, title = PNone, category = PNone, viewers = PNone,
     passed_thresholds = []\<rparr>"

text \<open>
  The event dictionaries \<^verbatim>\<open>{"type": "start"}\<close>, \<^verbatim>\<open>{"type": "end"}\<close>,
  \<^verbatim>\<open>{"type": "title_change"}\<close>, \<^verbatim>\<open>{"type": "category_change"}\<close> and
  \<^verbatim>\<open>{"type": "threshold_cross", "threshold": th}\<close>.
\<close>

datatype event = Start | End | TitleChange | CategoryChange | ThresholdCross int

section \<open>Event detection in \<^verbatim>\<open>process_streamer\<close>\<close>

text \<open>
  The local variables \<^verbatim>\<open>new_state\<close> and \<^verbatim>\<open>events\<close> are threaded through the
  blocks of \<^verbatim>\<open>process_streamer\<close> as a pair; each block below is one commented block
  of the source, in the source's order.
\<close>

definition build_new_state :: "pydict \<Rightarrow> channel_state \<Rightarrow> channel_state" where
  "build_new_state current last_state =
     \<lparr>is_live = dict_get_default current ''is_live'' (PBool False),
      title = py_or (dict_get current ''title'') (title last_state),
      category = py_or (dict_get current ''category'') (category last_state),
      viewers = dict_get current ''viewers'',
      passed_thresholds = passed_thresholds last_state\<rparr>"

definition start_end_events ::
  "channel_state \<Rightarrow> channel_state \<times> event list \<Rightarrow> channel_state \<times> event list" where
  "start_end_events last_state = (\<lambda>(new_state, events).
     if truthy (is_live last_state) then
       (if \<not> truthy (is_live new_state) then (new_state, events @ [End])
        else (new_state, events))
     else
       (if truthy (is_live new_state) then (new_state, events @ [Start])
        else (new_state, events)))"

definition title_change ::
  "pydict \<Rightarrow> channel_state \<Rightarrow> channel_state \<times> event list \<Rightarrow> channel_state \<times> event list" where
  "title_change current last_state = (\<lambda>(new_state, events).
     let new_title = dict_get current ''title'' in
     if truthy new_title \<and> py_ne new_title (title last_state)
     then (new_state\<lparr>title := new_title\<rparr>, events @ [TitleChange])
     else (new_state, events))"

definition category_change ::
  "pydict \<Rightarrow> channel_state \<Rightarrow> channel_state \<times> event list \<Rightarrow> channel_state \<times> event list" where
  "category_change current last_state = (\<lambda>(new_state, events).
     let new_cat = dict_get current ''category'' in
     if truthy new_cat \<and> py_ne new_cat (category last_state)
     then (new_state\<lparr>category := new_cat\<rparr>, events @ [CategoryChange])
     else (new_state, events))"

definition change_detection ::
  "pydict \<Rightarrow> channel_state \<Rightarrow> channel_state \<times> event list \<Rightarrow> channel_state \<times> event list" where
  "change_detection current last_state = (\<lambda>(new_state, events).
     if truthy (is_live new_state) \<and> truthy (is_live last_state)
     then category_change current last_state
            (title_change current last_state (new_state, events))
     else (new_state, events))"

definition start_update ::
  "pydict \<Rightarrow> channel_state \<times> event list \<Rightarrow> channel_state \<times> event list" where
  "start_update current = (\<lambda>(new_state, events).
     if list_ex (\<lambda>ev. ev = Start) events
     then (new_state\<lparr>title := py_or (dict_get current ''title'') (title new_state),
                      category := py_or (dict_get current ''category'') (category new_state),
                      passed_thresholds := []\<rparr>, events)
     else (new_state, events))"

text \<open>
  The loop \<^verbatim>\<open>for th in thresholds\<close>, with \<^verbatim>\<open>to_pass\<close> as its accumulator. The
  comparison is evaluated first (\<^verbatim>\<open>and\<close> evaluates its left operand first), and an
  exception it raises leaves the loop.
\<close>

fun collect_to_pass :: "pyval \<Rightarrow> int set \<Rightarrow> int list \<Rightarrow> int list \<Rightarrow> error + int list" where
  "collect_to_pass cur_viewers passed to_pass [] = Inr to_pass"
| "collect_to_pass cur_viewers passed to_pass (th # ths) =
     (case py_ge cur_viewers th of
        Inl e \<Rightarrow> Inl e
      | Inr ge \<Rightarrow>
          collect_to_pass cur_viewers passed
            (if ge \<and> th \<notin> passed then to_pass @ [th] else to_pass) ths)"

definition threshold_detection ::
  "pydict \<Rightarrow> int list \<Rightarrow> channel_state \<times> event list \<Rightarrow> error + channel_state \<times> event list" where
  "threshold_detection current thresholds = (\<lambda>(new_state, events).
     if truthy (is_live new_state) then
       (let cur_viewers = dict_get current ''viewers'' in
        if cur_viewers \<noteq> PNone \<and> is_int_or_float cur_viewers then
          (let passed = set (passed_thresholds new_state) in
           case collect_to_pass cur_viewers passed [] thresholds of
             Inl e \<Rightarrow> Inl e
           | Inr to_pass \<Rightarrow>
               if to_pass \<noteq> [] then
                 Inr (new_state\<lparr>passed_thresholds :=
                                   sorted_list_of_set (passed \<union> set to_pass)\<rparr>,
                      events @ map ThresholdCross (sort to_pass))
               else Inr (new_state, events))
        else Inr (new_state, events))
     else Inr (new_state, events))"

text \<open>
  Lines 254 to 305 of \<^verbatim>\<open>process_streamer\<close>: from \<^verbatim>\<open>current\<close>, \<^verbatim>\<open>last\<close> and
  \<^verbatim>\<open>thresholds\<close> to the final \<^verbatim>\<open>new_state\<close> and \<^verbatim>\<open>events\<close>.
\<close>

definition detect_events ::
  "channel_state \<Rightarrow> pydict \<Rightarrow> int list \<Rightarrow> error + channel_state \<times> event list" where
  "detect_events last_state current thresholds =
     threshold_detection current thresholds
       (start_update current
         (change_detection current last_state
           (start_end_events last_state (build_new_state current last_state, []))))"

section \<open>Notifications and the state store\<close>

text \<open>
  A streamer entry of \<^verbatim>\<open>config.yaml\<close>, with the two keys that decide what
  \<^verbatim>\<open>process_streamer\<close> does; \<open>None\<close> is a missing or null key.
\<close>

record streamer =
  channel_id :: "string option"
  webhook_url :: "string option"

text \<open>
  What \<^verbatim>\<open>session.post\<close> does is the network's choice: it answers with a status or
  raises. \<^verbatim>\<open>send_discord_message\<close> returns \<^verbatim>\<open>None\<close> either way and only prints.
\<close>

datatype post_result = Responded nat | PostRaised

datatype printed = RespondedWithStatus nat | FailedToSend

definition send_discord_message :: "post_result \<Rightarrow> printed list" where
  "send_discord_message r =
     (case r of
        Responded status \<Rightarrow> if status \<ge> 400 then [RespondedWithStatus status] else []
      | PostRaised \<Rightarrow> [FailedToSend])"

text \<open>
  The loop \<^verbatim>\<open>for ev in events\<close>: the \<open>i\<close>-th request of the call gets the result
  \<open>net i\<close>. Each request is recorded as the webhook and the event its payload is
  formatted from; \<^verbatim>\<open>format_discord_message\<close> only builds strings and has no
  \<^verbatim>\<open>raise\<close>.
\<close>

fun send_all ::
  "string \<Rightarrow> (nat \<Rightarrow> post_result) \<Rightarrow> nat \<Rightarrow> event list \<Rightarrow> (string \<times> event) list \<times> printed list" where
  "send_all webhook net i [] = ([], [])"
| "send_all webhook net i (ev # evs) =
     (let out = send_discord_message (net i);
          (posts, outs) = send_all webhook net (Suc i) evs
      in ((webhook, ev) # posts, out @ outs))"

text \<open>
  \<^verbatim>\<open>process_streamer\<close>, with the observation \<^verbatim>\<open>current\<close> that
  \<^verbatim>\<open>fetch_live_info\<close> returned and the dictionary \<^verbatim>\<open>state\<close> it mutates; the
  result is the updated \<^verbatim>\<open>state\<close>, the requests posted and the lines printed.
\<close>

definition process_streamer ::
  "streamer \<Rightarrow> int list \<Rightarrow> pydict \<Rightarrow> (nat \<Rightarrow> post_result) \<Rightarrow> (string \<rightharpoonup> channel_state)
     \<Rightarrow> error + (string \<rightharpoonup> channel_state) \<times> (string \<times> event) list \<times> printed list" where
  "process_streamer streamer thresholds current net state =
     (case channel_id streamer of
        None \<Rightarrow> Inr (state, [], [])
      | Some streamer_key \<Rightarrow>
          if streamer_key = [] then Inr (state, [], [])
          else
            (let last_state = (case state streamer_key of None \<Rightarrow> no_last | Some s \<Rightarrow> s) in
             case detect_events last_state current thresholds of
               Inl e \<Rightarrow> Inl e
             | Inr (new_state, events) \<Rightarrow>
                 (let (posts, outs) =
                        (case webhook_url streamer of
                           None \<Rightarrow> ([], [])
                         | Some webhook \<Rightarrow>
                             if webhook \<noteq> [] \<and> events \<noteq> []
                             then send_all webhook net 0 events else ([], []))
                  in Inr (state(streamer_key \<mapsto> new_state), posts, outs))))"

section \<open>A closed form of the detector\<close>

text \<open>
  The blocks before the threshold block leave \<^verbatim>\<open>new_state\<close> as \<open>carried\<close> and
  \<^verbatim>\<open>events\<close> as \<open>first_events\<close>; \<open>seen_live\<close> is the truth value of
  \<^verbatim>\<open>new_state["is_live"]\<close>. The lemmas \<open>before_thresholds\<close> and
  \<open>detect_events_eq\<close> prove the closed form equal to the code.
\<close>

definition seen_live :: "pydict \<Rightarrow> bool" where
  "seen_live current = truthy (dict_get_default current ''is_live'' (PBool False))"

definition carried :: "pydict \<Rightarrow> channel_state \<Rightarrow> channel_state" where
  "carried current last_state =
     \<lparr>is_live = dict_get_default current ''is_live'' (PBool False),
      title = py_or (dict_get current ''title'') (title last_state),
      category = py_or (dict_get current ''category'') (category last_state),
      viewers = dict_get current ''viewers'',
      passed_thresholds =
        (if \<not> truthy (is_live last_state) \<and> seen_live current then []
         else passed_thresholds last_state)\<rparr>"

definition first_events :: "pydict \<Rightarrow> channel_state \<Rightarrow> event list" where
  "first_events current last_state =
     (if truthy (is_live last_state) then (if seen_live current then [] else [End])
      else (if seen_live current then [Start] else []))
     @ (if seen_live current \<and> truthy (is_live last_state)
           \<and> truthy (dict_get current ''title'')
           \<and> py_ne (dict_get current ''title'') (title last_state)
        then [TitleChange] else [])
     @ (if seen_live current \<and> truthy (is_live last_state)
           \<and> truthy (dict_get current ''category'')
           \<and> py_ne (dict_get current ''category'') (category last_state)
        then [CategoryChange] else [])"

text \<open>
  The value of \<^verbatim>\<open>to_pass\<close> after the loop, when the threshold block runs it; empty
  when the block is skipped.
\<close>

definition crossed :: "pydict \<Rightarrow> int list \<Rightarrow> channel_state \<Rightarrow> int list" where
  "crossed current thresholds new_state =
     (if truthy (is_live new_state) \<and> is_int_or_float (dict_get current ''viewers'')
      then filter (\<lambda>th. py_ge (dict_get current ''viewers'') th = Inr True
                         \<and> th \<notin> set (passed_thresholds new_state)) thresholds
      else [])"

text \<open>
  What the JSON decoder guarantees of a value: the keys of every dict in it are distinct.
\<close>

fun keys_distinct :: "pyval \<Rightarrow> bool" where
  "keys_distinct (PList xs) = list_all keys_distinct xs"
| "keys_distinct (PDict kvs) =
     (distinct (map fst kvs) \<and> list_all (\<lambda>kv. keys_distinct (snd kv)) kvs)"
| "keys_distinct _ = True"

section \<open>Lemmas about \<^verbatim>\<open>==\<close>\<close>

text \<open>Every decoded value but the float NaN equals itself.\<close>

lemma py_eq_list_self:
  "(\<And>x. x \<in> set xs \<Longrightarrow> same_nan x x \<or> py_eq x x) \<Longrightarrow> py_eq_list xs xs"
  by (induction xs) auto

lemma py_eq_item_self:
  "distinct (map fst kvs) \<Longrightarrow> (k, v) \<in> set kvs \<Longrightarrow> same_nan v v \<or> py_eq v v
     \<Longrightarrow> py_eq_item k v kvs"
  by (induction kvs) (auto simp: rev_image_eqI)

lemma py_eq_items_self:
  "distinct (map fst kws) \<Longrightarrow> set kvs \<subseteq> set kws
     \<Longrightarrow> (\<And>k v. (k, v) \<in> set kws \<Longrightarrow> same_nan v v \<or> py_eq v v)
     \<Longrightarrow> py_eq_items kvs kws"
  by (induction kvs) (auto simp: py_eq_item_self)

lemma py_eq_self_or_nan: "keys_distinct v \<Longrightarrow> same_nan v v \<or> py_eq v v"
proof (induction v)
  case (PFloat f)
  then show ?case by (cases f) (simp_all add: same_nan_def)
next
  case (PList xs)
  then show ?case by (auto simp: list_all_iff intro!: py_eq_list_self)
next
  case (PDict kvs)
  have "py_eq_items kvs kvs"
  proof (rule py_eq_items_self)
    show "distinct (map fst kvs)" using PDict.prems by simp
    show "set kvs \<subseteq> set kvs" by simp
    fix k v assume kv: "(k, v) \<in> set kvs"
    then have "keys_distinct v" using PDict.prems by (auto simp: list_all_iff)
    moreover have "v \<in> Basic_BNFs.snds (k, v)" by simp
    ultimately show "same_nan v v \<or> py_eq v v" using PDict.IH kv by blast
  qed
  then show ?case by simp
qed simp_all

lemma py_eq_self: "keys_distinct v \<Longrightarrow> v \<noteq> PFloat NaN \<Longrightarrow> py_eq v v"
  using py_eq_self_or_nan [of v] by (auto simp: same_nan_def)

section \<open>Lemmas about the detector\<close>

lemma py_ge_number: "is_int_or_float v \<Longrightarrow> \<exists>b. py_ge v th = Inr b"
  by (cases "(v, th)" rule: py_ge.cases) auto

lemma collect_to_pass_filter:
  "is_int_or_float v \<Longrightarrow>
   collect_to_pass v P acc ths = Inr (acc @ filter (\<lambda>th. py_ge v th = Inr True \<and> th \<notin> P) ths)"
proof (induction ths arbitrary: acc)
  case Nil
  then show ?case by simp
next
  case (Cons th ths)
  from Cons.prems obtain b where b: "py_ge v th = Inr b"
    using py_ge_number by blast
  show ?case using Cons.IH [OF Cons.prems] b by simp
qed

lemma is_int_or_float_not_None: "is_int_or_float v \<Longrightarrow> v \<noteq> PNone"
  by auto

lemma threshold_detection_eq:
  "threshold_detection current ths (ns, evs) =
     Inr (if crossed current ths ns = [] then ns
          else ns\<lparr>passed_thresholds :=
                    sorted_list_of_set (set (passed_thresholds ns) \<union> set (crossed current ths ns))\<rparr>,
          evs @ map ThresholdCross (sort (crossed current ths ns)))"
proof (cases "truthy (is_live ns) \<and> is_int_or_float (dict_get current ''viewers'')")
  case True
  then show ?thesis
    by (simp add: threshold_detection_def crossed_def Let_def collect_to_pass_filter
        is_int_or_float_not_None)
next
  case False
  then show ?thesis
    by (auto simp add: threshold_detection_def crossed_def Let_def)
qed

lemma before_thresholds:
  "start_update current
     (change_detection current last_state
       (start_end_events last_state (build_new_state current last_state, [])))
   = (carried current last_state, first_events current last_state)"
  by (simp add: start_update_def change_detection_def category_change_def title_change_def
      start_end_events_def build_new_state_def carried_def first_events_def seen_live_def
      py_or_def Let_def)

lemma detect_events_eq:
  "detect_events last_state current ths =
     Inr (if crossed current ths (carried current last_state) = []
          then carried current last_state
          else (carried current last_state)\<lparr>passed_thresholds :=
                 sorted_list_of_set (set (passed_thresholds (carried current last_state))
                   \<union> set (crossed current ths (carried current last_state)))\<rparr>,
          first_events current last_state
            @ map ThresholdCross (sort (crossed current ths (carried current last_state))))"
  unfolding detect_events_def before_thresholds by (rule threshold_detection_eq)

lemmas detect_defs = detect_events_def threshold_detection_def start_update_def
  change_detection_def category_change_def title_change_def start_end_events_def
  build_new_state_def dict_get_def dict_get_default_def py_or_def py_ne_def

lemma cross_not_first: "ThresholdCross th \<notin> set (first_events current last_state)"
  by (simp add: first_events_def)

lemma start_first:
  "Start \<in> set (first_events current last_state)
     \<longleftrightarrow> \<not> truthy (is_live last_state) \<and> seen_live current"
  by (simp add: first_events_def)

lemma end_first:
  "End \<in> set (first_events current last_state)
     \<longleftrightarrow> truthy (is_live last_state) \<and> \<not> seen_live current"
  by (simp add: first_events_def)

lemma title_first:
  "TitleChange \<in> set (first_events current last_state)
     \<longleftrightarrow> seen_live current \<and> truthy (is_live last_state)
           \<and> truthy (dict_get current ''title'')
           \<and> py_ne (dict_get current ''title'') (title last_state)"
  by (simp add: first_events_def)

lemma category_first:
  "CategoryChange \<in> set (first_events current last_state)
     \<longleftrightarrow> seen_live current \<and> truthy (is_live last_state)
           \<and> truthy (dict_get current ''category'')
           \<and> py_ne (dict_get current ''category'') (category last_state)"
  by (simp add: first_events_def)

lemma set_crossed:
  "set (crossed current ths ns) \<inter> set (passed_thresholds ns) = {}"
  by (auto simp: crossed_def)

lemma detect_events_parts:
  assumes "detect_events last_state current ths = Inr (ns, evs)"
  shows "evs = first_events current last_state
           @ map ThresholdCross (sort (crossed current ths (carried current last_state)))"
    and "is_live ns = is_live (carried current last_state)"
    and "title ns = title (carried current last_state)"
    and "category ns = category (carried current last_state)"
    and "viewers ns = viewers (carried current last_state)"
    and "set (passed_thresholds ns) = set (passed_thresholds (carried current last_state))
           \<union> set (crossed current ths (carried current last_state))"
    and "crossed current ths (carried current last_state) = []
           \<Longrightarrow> ns = carried current last_state"
  using assms unfolding detect_events_eq by (auto split: if_splits)

lemma first_events_shape:
  "\<exists>lv tc cc. first_events current last_state = lv @ tc @ cc
     \<and> (lv = [] \<or> lv = [End] \<or> lv = [Start])
     \<and> (tc = [] \<or> tc = [TitleChange])
     \<and> (cc = [] \<or> cc = [CategoryChange])"
  unfolding first_events_def by (intro exI conjI) (rule refl, simp_all)

lemma distinct_crossed: "distinct ths \<Longrightarrow> distinct (crossed current ths ns)"
  by (simp add: crossed_def)

section \<open>Lemmas about \<^verbatim>\<open>process_streamer\<close>\<close>

lemma process_streamer_eq:
  assumes "channel_id streamer = Some cid" and "cid \<noteq> []"
    and "detect_events (case state cid of None \<Rightarrow> no_last | Some s \<Rightarrow> s) current ths
       = Inr (ns, evs)"
  shows "\<exists>sent. process_streamer streamer ths current net state
     = Inr (state(cid \<mapsto> ns), sent)"
  using assms
  by (simp add: process_streamer_def Let_def split: prod.splits option.splits)

text \<open>
  A call on a channel seen for the first time, live with 150 viewers: both requests fail
  (the first raises, the second is answered 429) and the state is stored all the same.
\<close>

lemma process_streamer_example:
  "process_streamer \<lparr>channel_id = Some ''abc'', webhook_url = Some ''https://hook''\<rparr>
             [100] [''is_live'' \<mapsto> PBool True, ''viewers'' \<mapsto> PInt 150]
             (\<lambda>i. if i = 0 then PostRaised else Responded 429) Map.empty
   = Inr ([''abc'' \<mapsto> \<lparr>is_live = PBool True, title = PNone, category = PNone,
           viewers = PInt 150, passed_thresholds = [100]\<rparr>],
          [(''https://hook'', Start), (''https://hook'', ThresholdCross 100)],
          [FailedToSend, RespondedWithStatus 429])"
  by (simp add: process_streamer_def detect_defs no_last_def send_discord_message_def)

section \<open>The claims\<close>

text \<open>
  C1. From a previous state that is not live and has \<open>passed_thresholds = [100, 300]\<close>,
  whatever its other fields, the observation \<^verbatim>\<open>{is_live: true, viewers: 150, title: "T",
  category: "C"}\<close> with thresholds \<open>[100, 300, 500]\<close> gives exactly the events
  \<open>[Start, ThresholdCross 100]\<close> and the next \<open>passed_thresholds\<close> is \<open>[100]\<close>: the
  list is emptied on the start before the thresholds are evaluated.
\<close>

theorem start_resets_thresholds:
  "detect_events
     \<lparr>is_live = PBool False, title = t, category = c, viewers = v,
      passed_thresholds = [100, 300]\<rparr>
     [''is_live'' \<mapsto> PBool True, ''viewers'' \<mapsto> PInt 150, ''title'' \<mapsto> PStr ''T'',
      ''category'' \<mapsto> PStr ''C'']
     [100, 300, 500]
   = Inr (\<lparr>is_live = PBool True, title = PStr ''T'', category = PStr ''C'',
           viewers = PInt 150, passed_thresholds = [100]\<rparr>,
          [Start, ThresholdCross 100])"
  by (simp add: detect_defs)

text \<open>C1 at a previous state without title, category and viewers.\<close>

theorem start_resets_thresholds_witness:
  "detect_events
     \<lparr>is_live = PBool False, title = PNone, category = PNone, viewers = PNone,
      passed_thresholds = [100, 300]\<rparr>
     [''is_live'' \<mapsto> PBool True, ''viewers'' \<mapsto> PInt 150, ''title'' \<mapsto> PStr ''T'',
      ''category'' \<mapsto> PStr ''C'']
     [100, 300, 500]
   = Inr (\<lparr>is_live = PBool True, title = PStr ''T'', category = PStr ''C'',
           viewers = PInt 150, passed_thresholds = [100]\<rparr>,
          [Start, ThresholdCross 100])"
  by (rule start_resets_thresholds [of PNone PNone PNone])

text \<open>
  C2 as stated fails: a previous state that is not live still holds the thresholds of the
  session that ended (\<open>[100]\<close> here); when the channel is seen live with 120 viewers,
  \<open>ThresholdCross 100\<close> is emitted although 100 was in the previous
  \<open>passed_thresholds\<close>.
\<close>

theorem cross_repeated_after_start:
  "detect_events
     \<lparr>is_live = PBool False, title = PStr ''A'', category = PStr ''C'', viewers = PNone,
      passed_thresholds = [100]\<rparr>
     [''is_live'' \<mapsto> PBool True, ''viewers'' \<mapsto> PInt 120]
     [100, 300]
   = Inr (\<lparr>is_live = PBool True, title = PStr ''A'', category = PStr ''C'',
           viewers = PInt 120, passed_thresholds = [100]\<rparr>,
          [Start, ThresholdCross 100])
   \<and> 100 \<in> set (passed_thresholds
        \<lparr>is_live = PBool False, title = PStr ''A'', category = PStr ''C'', viewers = PNone,
         passed_thresholds = [100]\<rparr>)"
  by (simp add: detect_defs)

text \<open>
  C2, amended. In every step that emits no \<open>Start\<close> event, no \<open>ThresholdCross\<close> event
  is emitted for a threshold that is in the previous state's \<open>passed_thresholds\<close>.
\<close>

theorem no_cross_repeated_without_start:
  assumes "detect_events last_state current ths = Inr (ns, evs)"
    and "Start \<notin> set evs"
    and "th \<in> set (passed_thresholds last_state)"
  shows "ThresholdCross th \<notin> set evs"
proof -
  note parts = detect_events_parts [OF assms(1)]
  from assms(2) have "Start \<notin> set (first_events current last_state)"
    by (simp add: parts(1))
  then have "passed_thresholds (carried current last_state) = passed_thresholds last_state"
    by (auto simp: start_first carried_def)
  with assms(3) have "th \<notin> set (crossed current ths (carried current last_state))"
    using set_crossed [of current ths "carried current last_state"] by auto
  then show ?thesis
    by (auto simp: parts(1) cross_not_first)
qed

text \<open>C2, amended, on a live channel that goes from 110 to 350 viewers.\<close>

theorem no_cross_repeated_without_start_witness:
  "detect_events
     \<lparr>is_live = PBool True, title = PStr ''A'', category = PStr ''C'', viewers = PInt 110,
      passed_thresholds = [100]\<rparr>
     [''is_live'' \<mapsto> PBool True, ''viewers'' \<mapsto> PInt 350]
     [100, 300]
   = Inr (\<lparr>is_live = PBool True, title = PStr ''A'', category = PStr ''C'',
           viewers = PInt 350, passed_thresholds = [100, 300]\<rparr>,
          [ThresholdCross 300])
   \<and> Start \<notin> set [ThresholdCross 300]
   \<and> (100::int) \<in> set [100]
   \<and> ThresholdCross 100 \<notin> set [ThresholdCross 300]"
proof -
  have run: "detect_events
     \<lparr>is_live = PBool True, title = PStr ''A'', category = PStr ''C'', viewers = PInt 110,
      passed_thresholds = [100]\<rparr>
     [''is_live'' \<mapsto> PBool True, ''viewers'' \<mapsto> PInt 350]
     [100, 300]
   = Inr (\<lparr>is_live = PBool True, title = PStr ''A'', category = PStr ''C'',
           viewers = PInt 350, passed_thresholds = [100, 300]\<rparr>,
          [ThresholdCross 300])"
    by (simp add: detect_defs)
  have "ThresholdCross 100 \<notin> set [ThresholdCross 300]"
    by (rule no_cross_repeated_without_start [OF run]) simp_all
  with run show ?thesis by simp
qed




text \<open>
  C4 as stated fails: with the previous state and the observation both not live, the
  next state takes the observation's viewers; here the previous state has 5 viewers and
  the observation \<^verbatim>\<open>{"is_live": False}\<close> has none.
\<close>

theorem offline_step_changes_viewers:
  "detect_events
     \<lparr>is_live = PBool False, title = PStr ''A'', category = PStr ''C'', viewers = PInt 5,
      passed_thresholds = [100]\<rparr>
     [''is_live'' \<mapsto> PBool False]
     [100, 300]
   = Inr (\<lparr>is_live = PBool False, title = PStr ''A'', category = PStr ''C'',
           viewers = PNone, passed_thresholds = [100]\<rparr>, [])
   \<and> \<lparr>is_live = PBool False, title = PStr ''A'', category = PStr ''C'',
           viewers = PNone, passed_thresholds = [100]\<rparr>
     \<noteq> \<lparr>is_live = PBool False, title = PStr ''A'', category = PStr ''C'', viewers = PInt 5,
      passed_thresholds = [100]\<rparr>"
  by (simp add: detect_defs)

text \<open>
  C4, amended. When the previous state and the observation both have \<open>is_live = False\<close>,
  no event is emitted, and the next state is the previous state with the title and the
  category replaced by the observation's where it has a non-empty one and with the viewers
  replaced by the observation's viewers; \<open>is_live\<close> and \<open>passed_thresholds\<close> are kept.
\<close>

theorem offline_step:
  assumes "is_live last_state = PBool False"
    and "dict_get_default current ''is_live'' (PBool False) = PBool False"
  shows "detect_events last_state current ths =
     Inr (last_state\<lparr>title := py_or (dict_get current ''title'') (title last_state),
                     category := py_or (dict_get current ''category'') (category last_state),
                     viewers := dict_get current ''viewers''\<rparr>, [])"
proof -
  have live: "\<not> seen_live current" "\<not> truthy (is_live last_state)"
    using assms by (simp_all add: seen_live_def)
  have "crossed current ths (carried current last_state) = []"
    using assms(2) by (simp add: crossed_def carried_def)
  moreover have "first_events current last_state = []"
    using live by (simp add: first_events_def)
  moreover have "carried current last_state =
     last_state\<lparr>title := py_or (dict_get current ''title'') (title last_state),
                category := py_or (dict_get current ''category'') (category last_state),
                viewers := dict_get current ''viewers''\<rparr>"
    using live assms by (intro channel_state.equality) (simp_all add: carried_def)
  ultimately show ?thesis
    unfolding detect_events_eq by simp
qed

text \<open>C4, amended, on an offline observation that carries a new title.\<close>

theorem offline_step_witness:
  "is_live \<lparr>is_live = PBool False, title = PStr ''A'', category = PNone, viewers = PInt 5,
      passed_thresholds = [100]\<rparr> = PBool False
   \<and> dict_get_default [''is_live'' \<mapsto> PBool False, ''title'' \<mapsto> PStr ''B''] ''is_live''
       (PBool False) = PBool False
   \<and> detect_events
     \<lparr>is_live = PBool False, title = PStr ''A'', category = PNone, viewers = PInt 5,
      passed_thresholds = [100]\<rparr>
     [''is_live'' \<mapsto> PBool False, ''title'' \<mapsto> PStr ''B'']
     [100, 300]
   = Inr (\<lparr>is_live = PBool False, title = PStr ''B'', category = PNone,
           viewers = PNone, passed_thresholds = [100]\<rparr>, [])"
  using offline_step [of
     "\<lparr>is_live = PBool False, title = PStr ''A'', category = PNone, viewers = PInt 5,
      passed_thresholds = [100]\<rparr>"
     "[''is_live'' \<mapsto> PBool False, ''title'' \<mapsto> PStr ''B'']" "[100, 300]"]
  by (simp add: dict_get_def dict_get_default_def py_or_def)

text \<open>
  C5. The events of a step are, in this order: at most one \<open>End\<close> or \<open>Start\<close>, at
  most one \<open>TitleChange\<close>, at most one \<open>CategoryChange\<close>, then the \<open>ThresholdCross\<close>
  events in ascending order of threshold (strictly ascending when the threshold list has
  no duplicates).
\<close>

theorem events_in_fixed_order:
  assumes "detect_events last_state current ths = Inr (ns, evs)"
  shows "\<exists>lv tc cc xs. evs = lv @ tc @ cc @ map ThresholdCross xs
     \<and> (lv = [] \<or> lv = [End] \<or> lv = [Start])
     \<and> (tc = [] \<or> tc = [TitleChange])
     \<and> (cc = [] \<or> cc = [CategoryChange])
     \<and> sorted xs
     \<and> (distinct ths \<longrightarrow> sorted_wrt (<) xs)"
proof -
  let ?xs = "sort (crossed current ths (carried current last_state))"
  obtain lv tc cc where first: "first_events current last_state = lv @ tc @ cc"
    and lv: "lv = [] \<or> lv = [End] \<or> lv = [Start]"
    and tc: "tc = [] \<or> tc = [TitleChange]"
    and cc: "cc = [] \<or> cc = [CategoryChange]"
    using first_events_shape by blast
  have "evs = lv @ tc @ cc @ map ThresholdCross ?xs"
    using detect_events_parts(1) [OF assms] first by simp
  moreover have "sorted ?xs" by simp
  moreover have "distinct ths \<longrightarrow> sorted_wrt (<) ?xs"
    by (simp add: strict_sorted_iff distinct_crossed)
  ultimately show ?thesis using lv tc cc by blast
qed

text \<open>
  C5 on a live channel whose title and category change and which crosses three
  thresholds, given out of order.
\<close>

theorem events_in_fixed_order_witness:
  "detect_events
     \<lparr>is_live = PBool True, title = PStr ''A'', category = PStr ''C'', viewers = PInt 90,
      passed_thresholds = []\<rparr>
     [''is_live'' \<mapsto> PBool True, ''title'' \<mapsto> PStr ''B'', ''category'' \<mapsto> PStr ''D'',
      ''viewers'' \<mapsto> PInt 600]
     [500, 100, 300]
   = Inr (\<lparr>is_live = PBool True, title = PStr ''B'', category = PStr ''D'',
           viewers = PInt 600, passed_thresholds = [100, 300, 500]\<rparr>,
          [TitleChange, CategoryChange, ThresholdCross 100, ThresholdCross 300,
           ThresholdCross 500])
   \<and> distinct [500, 100, 300 :: int]
   \<and> (\<exists>lv tc cc xs.
        [TitleChange, CategoryChange, ThresholdCross 100, ThresholdCross 300,
           ThresholdCross 500] = lv @ tc @ cc @ map ThresholdCross xs
      \<and> (lv = [] \<or> lv = [End] \<or> lv = [Start])
      \<and> (tc = [] \<or> tc = [TitleChange])
      \<and> (cc = [] \<or> cc = [CategoryChange])
      \<and> sorted xs \<and> sorted_wrt (<) xs)"
proof -
  have run: "detect_events
     \<lparr>is_live = PBool True, title = PStr ''A'', category = PStr ''C'', viewers = PInt 90,
      passed_thresholds = []\<rparr>
     [''is_live'' \<mapsto> PBool True, ''title'' \<mapsto> PStr ''B'', ''category'' \<mapsto> PStr ''D'',
      ''viewers'' \<mapsto> PInt 600]
     [500, 100, 300]
   = Inr (\<lparr>is_live = PBool True, title = PStr ''B'', category = PStr ''D'',
           viewers = PInt 600, passed_thresholds = [100, 300, 500]\<rparr>,
          [TitleChange, CategoryChange, ThresholdCross 100, ThresholdCross 300,
           ThresholdCross 500])"
    by (simp add: detect_defs)
  have d: "distinct [500, 100, 300 :: int]" by simp
  from events_in_fixed_order [OF run] d run show ?thesis by simp
qed

text \<open>
  C6 as stated fails: the observation carries the title \<^verbatim>\<open>""\<close>, a string that
  differs from the previous title \<^verbatim>\<open>"A"\<close>, and no \<open>TitleChange\<close> is emitted; the
  previous title is kept.
\<close>

theorem empty_title_not_a_change:
  "[''is_live'' \<mapsto> PBool True, ''title'' \<mapsto> PStr ''''] ''title'' = Some (PStr '''')
   \<and> py_ne (PStr '''') (PStr ''A'')
   \<and> detect_events
        \<lparr>is_live = PBool True, title = PStr ''A'', category = PStr ''C'', viewers = PNone,
         passed_thresholds = []\<rparr>
        [''is_live'' \<mapsto> PBool True, ''title'' \<mapsto> PStr '''']
        [100]
      = Inr (\<lparr>is_live = PBool True, title = PStr ''A'', category = PStr ''C'',
              viewers = PNone, passed_thresholds = []\<rparr>, [])"
  by (simp add: detect_defs)

text \<open>
  C6, amended. When the previous state and the observation are both live, a
  \<open>TitleChange\<close> is emitted if and only if the observation's title is true in Python's
  sense (not missing, not null, not empty) and differs from the previous title; the next
  title is the observation's title when that is true and the previous title otherwise.
  The same holds for the category.
\<close>

theorem live_title_change:
  assumes "truthy (is_live last_state)"
    and "truthy (dict_get_default current ''is_live'' (PBool False))"
    and "detect_events last_state current ths = Inr (ns, evs)"
  shows "(TitleChange \<in> set evs \<longleftrightarrow>
            truthy (dict_get current ''title'')
            \<and> py_ne (dict_get current ''title'') (title last_state))
     \<and> title ns = (if truthy (dict_get current ''title'')
                    then dict_get current ''title'' else title last_state)
     \<and> (CategoryChange \<in> set evs \<longleftrightarrow>
            truthy (dict_get current ''category'')
            \<and> py_ne (dict_get current ''category'') (category last_state))
     \<and> category ns = (if truthy (dict_get current ''category'')
                       then dict_get current ''category'' else category last_state)"
proof -
  note parts = detect_events_parts [OF assms(3)]
  have live: "seen_live current" using assms(2) by (simp add: seen_live_def)
  have "TitleChange \<in> set evs \<longleftrightarrow> TitleChange \<in> set (first_events current last_state)"
    and "CategoryChange \<in> set evs \<longleftrightarrow> CategoryChange \<in> set (first_events current last_state)"
    by (auto simp: parts(1))
  then show ?thesis
    using live assms(1)
    by (simp add: title_first category_first parts(3,4) carried_def py_or_def)
qed

text \<open>C6, amended, on a live channel whose title goes from A to B.\<close>

theorem live_title_change_witness:
  "truthy (is_live \<lparr>is_live = PBool True, title = PStr ''A'', category = PStr ''C'',
       viewers = PInt 10, passed_thresholds = []\<rparr>)
   \<and> truthy (dict_get_default [''is_live'' \<mapsto> PBool True, ''title'' \<mapsto> PStr ''B'']
        ''is_live'' (PBool False))
   \<and> detect_events
        \<lparr>is_live = PBool True, title = PStr ''A'', category = PStr ''C'', viewers = PInt 10,
         passed_thresholds = []\<rparr>
        [''is_live'' \<mapsto> PBool True, ''title'' \<mapsto> PStr ''B'']
        [100]
      = Inr (\<lparr>is_live = PBool True, title = PStr ''B'', category = PStr ''C'',
              viewers = PNone, passed_thresholds = []\<rparr>, [TitleChange])
   \<and> TitleChange \<in> set [TitleChange]
   \<and> CategoryChange \<notin> set [TitleChange]"
proof -
  let ?last = "\<lparr>is_live = PBool True, title = PStr ''A'', category = PStr ''C'',
       viewers = PInt 10, passed_thresholds = []\<rparr>"
  let ?obs = "[''is_live'' \<mapsto> PBool True, ''title'' \<mapsto> PStr ''B'']"
  have l: "truthy (is_live ?last)" by simp
  have n: "truthy (dict_get_default ?obs ''is_live'' (PBool False))"
    by (simp add: dict_get_default_def)
  have run: "detect_events ?last ?obs [100]
      = Inr (\<lparr>is_live = PBool True, title = PStr ''B'', category = PStr ''C'',
              viewers = PNone, passed_thresholds = []\<rparr>, [TitleChange])"
    by (simp add: detect_defs)
  from live_title_change [OF l n run] l n run show ?thesis
    by (simp add: dict_get_def py_ne_def)
qed

text \<open>
  C7 as stated fails in its last part: a title of unexpected type, here the number 123,
  is not treated as no change; it is compared with the previous title, reported as a
  \<open>TitleChange\<close> and stored.
\<close>

theorem number_title_is_a_change:
  "detect_events
     \<lparr>is_live = PBool True, title = PStr ''A'', category = PStr ''C'', viewers = PNone,
      passed_thresholds = []\<rparr>
     [''is_live'' \<mapsto> PBool True, ''title'' \<mapsto> PInt 123]
     [100]
   = Inr (\<lparr>is_live = PBool True, title = PInt 123, category = PStr ''C'',
           viewers = PNone, passed_thresholds = []\<rparr>, [TitleChange])"
  by (simp add: detect_defs)

text \<open>
  C7, amended. The detector returns a state and an event list for every previous state,
  observation and threshold list, and never raises. A title or category that is missing,
  null or empty is treated as no change, and a viewers value that is missing, null or not
  an int, float or bool as not crossed.
\<close>

theorem detect_events_total:
  "\<exists>ns evs. detect_events last_state current ths = Inr (ns, evs)
     \<and> (\<not> truthy (dict_get current ''title'') \<longrightarrow>
           TitleChange \<notin> set evs \<and> title ns = title last_state)
     \<and> (\<not> truthy (dict_get current ''category'') \<longrightarrow>
           CategoryChange \<notin> set evs \<and> category ns = category last_state)
     \<and> (\<not> is_int_or_float (dict_get current ''viewers'') \<longrightarrow>
           (\<forall>th. ThresholdCross th \<notin> set evs))"
proof -
  obtain ns evs where run: "detect_events last_state current ths = Inr (ns, evs)"
    by (simp add: detect_events_eq)
  note parts = detect_events_parts [OF run]
  have "\<not> truthy (dict_get current ''title'') \<longrightarrow>
           TitleChange \<notin> set evs \<and> title ns = title last_state"
    by (auto simp: parts(1,3) title_first carried_def py_or_def)
  moreover have "\<not> truthy (dict_get current ''category'') \<longrightarrow>
           CategoryChange \<notin> set evs \<and> category ns = category last_state"
    by (auto simp: parts(1,4) category_first carried_def py_or_def)
  moreover have "\<not> is_int_or_float (dict_get current ''viewers'') \<longrightarrow>
           (\<forall>th. ThresholdCross th \<notin> set evs)"
    by (auto simp: parts(1) cross_not_first crossed_def)
  ultimately show ?thesis using run by blast
qed

text \<open>C7, amended, on an observation without title and category whose viewers is a string.\<close>

theorem detect_events_total_witness:
  "\<not> truthy (dict_get [''is_live'' \<mapsto> PBool True, ''viewers'' \<mapsto> PStr ''many''] ''title'')
   \<and> \<not> truthy (dict_get [''is_live'' \<mapsto> PBool True, ''viewers'' \<mapsto> PStr ''many'']
          ''category'')
   \<and> \<not> is_int_or_float
          (dict_get [''is_live'' \<mapsto> PBool True, ''viewers'' \<mapsto> PStr ''many''] ''viewers'')
   \<and> (\<exists>ns evs.
        detect_events
          \<lparr>is_live = PBool True, title = PStr ''A'', category = PStr ''C'',
           viewers = PInt 10, passed_thresholds = []\<rparr>
          [''is_live'' \<mapsto> PBool True, ''viewers'' \<mapsto> PStr ''many'']
          [100] = Inr (ns, evs)
        \<and> TitleChange \<notin> set evs \<and> title ns = PStr ''A''
        \<and> CategoryChange \<notin> set evs \<and> category ns = PStr ''C''
        \<and> (\<forall>th. ThresholdCross th \<notin> set evs))"
  using detect_events_total [of
      "\<lparr>is_live = PBool True, title = PStr ''A'', category = PStr ''C'',
           viewers = PInt 10, passed_thresholds = []\<rparr>"
      "[''is_live'' \<mapsto> PBool True, ''viewers'' \<mapsto> PStr ''many'']" "[100]"]
  by (simp add: dict_get_def)

text \<open>
  C8. The next state's viewers is the observation's viewers, and \<open>PNone\<close> when the
  observation has none; the previous viewers is never carried forward.
\<close>

theorem viewers_overwritten:
  "\<exists>ns evs. detect_events last_state current ths = Inr (ns, evs)
     \<and> viewers ns = dict_get current ''viewers''"
proof -
  obtain ns evs where run: "detect_events last_state current ths = Inr (ns, evs)"
    by (simp add: detect_events_eq)
  from detect_events_parts(5) [OF run] have "viewers ns = dict_get current ''viewers''"
    by (simp add: carried_def)
  with run show ?thesis by blast
qed

text \<open>C8 on a live channel with 150 viewers and an observation without viewers.\<close>

theorem viewers_overwritten_witness:
  "\<exists>ns evs.
     detect_events
       \<lparr>is_live = PBool True, title = PStr ''A'', category = PStr ''C'',
        viewers = PInt 150, passed_thresholds = [100]\<rparr>
       [''is_live'' \<mapsto> PBool True, ''title'' \<mapsto> PStr ''A''] [100, 300] = Inr (ns, evs)
     \<and> viewers ns = PNone"
  using viewers_overwritten [of
      "\<lparr>is_live = PBool True, title = PStr ''A'', category = PStr ''C'',
        viewers = PInt 150, passed_thresholds = [100]\<rparr>"
      "[''is_live'' \<mapsto> PBool True, ''title'' \<mapsto> PStr ''A'']" "[100, 300]"]
  by (simp add: dict_get_def)

text \<open>
  C9. In a step that emits no \<open>Start\<close>, the next \<open>passed_thresholds\<close> contains the
  previous one, it is the previous one together with the thresholds of the
  \<open>ThresholdCross\<close> events of the step, and a step that emits \<open>End\<close> leaves the list
  as it was.
\<close>

theorem passed_thresholds_grow:
  assumes "detect_events last_state current ths = Inr (ns, evs)"
    and "Start \<notin> set evs"
  shows "set (passed_thresholds last_state) \<subseteq> set (passed_thresholds ns)
     \<and> set (passed_thresholds ns)
         = set (passed_thresholds last_state) \<union> {th. ThresholdCross th \<in> set evs}
     \<and> (End \<in> set evs \<longrightarrow> passed_thresholds ns = passed_thresholds last_state)"
proof -
  let ?c = "carried current last_state"
  note parts = detect_events_parts [OF assms(1)]
  from assms(2) have "Start \<notin> set (first_events current last_state)"
    by (simp add: parts(1))
  then have keep: "passed_thresholds ?c = passed_thresholds last_state"
    by (auto simp: start_first carried_def)
  have cross: "{th. ThresholdCross th \<in> set evs} = set (crossed current ths ?c)"
    by (auto simp: parts(1) cross_not_first)
  have grow: "set (passed_thresholds ns)
         = set (passed_thresholds last_state) \<union> {th. ThresholdCross th \<in> set evs}"
    by (simp add: parts(6) keep cross)
  have "passed_thresholds ns = passed_thresholds last_state" if "End \<in> set evs"
  proof -
    from that have "End \<in> set (first_events current last_state)"
      by (auto simp: parts(1))
    then have "\<not> seen_live current" by (simp add: end_first)
    then have "crossed current ths ?c = []"
      by (simp add: crossed_def carried_def seen_live_def)
    then show ?thesis using parts(7) keep by simp
  qed
  with grow show ?thesis by auto
qed

text \<open>C9 on the step that ends a session.\<close>

theorem passed_thresholds_grow_witness:
  "detect_events
     \<lparr>is_live = PBool True, title = PStr ''A'', category = PStr ''C'', viewers = PInt 120,
      passed_thresholds = [100]\<rparr>
     [''is_live'' \<mapsto> PBool False]
     [100, 300]
   = Inr (\<lparr>is_live = PBool False, title = PStr ''A'', category = PStr ''C'',
           viewers = PNone, passed_thresholds = [100]\<rparr>, [End])
   \<and> Start \<notin> set [End]
   \<and> End \<in> set [End]
   \<and> set [100 :: int] \<subseteq> set [100]
   \<and> set [100 :: int] = set [100] \<union> {th. ThresholdCross th \<in> set [End]}"
proof -
  have run: "detect_events
     \<lparr>is_live = PBool True, title = PStr ''A'', category = PStr ''C'', viewers = PInt 120,
      passed_thresholds = [100]\<rparr>
     [''is_live'' \<mapsto> PBool False]
     [100, 300]
   = Inr (\<lparr>is_live = PBool False, title = PStr ''A'', category = PStr ''C'',
           viewers = PNone, passed_thresholds = [100]\<rparr>, [End])"
    by (simp add: detect_defs)
  have s: "Start \<notin> set [End]" by simp
  from passed_thresholds_grow [OF run s] run s show ?thesis by simp
qed

text \<open>
  C10. For a streamer with a non-empty channel id, \<^verbatim>\<open>process_streamer\<close> returns
  normally and stores under the channel id the state the detector computes from the stored
  state, the observation and the thresholds: the same for any two webhook settings and any
  two behaviours of the network.
\<close>

theorem state_written_whatever_is_sent:
  assumes "channel_id streamer = Some cid" and "cid \<noteq> []"
    and "channel_id streamer' = Some cid"
  shows "\<exists>ns evs sent sent'.
     detect_events (case state cid of None \<Rightarrow> no_last | Some s \<Rightarrow> s) current ths
       = Inr (ns, evs)
     \<and> process_streamer streamer ths current net state = Inr (state(cid \<mapsto> ns), sent)
     \<and> process_streamer streamer' ths current net' state = Inr (state(cid \<mapsto> ns), sent')"
proof -
  let ?last = "case state cid of None \<Rightarrow> no_last | Some s \<Rightarrow> s"
  obtain ns evs where run: "detect_events ?last current ths = Inr (ns, evs)"
    by (simp add: detect_events_eq)
  from process_streamer_eq [where state = state and net = net, OF assms(1,2) run]
  obtain sent where a: "process_streamer streamer ths current net state
      = Inr (state(cid \<mapsto> ns), sent)"
    by blast
  from process_streamer_eq [where state = state and net = net', OF assms(3,2) run]
  obtain sent' where b: "process_streamer streamer' ths current net' state
      = Inr (state(cid \<mapsto> ns), sent')"
    by blast
  from run a b show ?thesis by blast
qed

text \<open>
  C10 with a webhook whose every request raises, against no webhook at all.
\<close>

theorem state_written_whatever_is_sent_witness:
  "channel_id \<lparr>channel_id = Some ''abc'', webhook_url = Some ''https://hook''\<rparr> = Some ''abc''
   \<and> ''abc'' \<noteq> []
   \<and> channel_id \<lparr>channel_id = Some ''abc'', webhook_url = None\<rparr> = Some ''abc''
   \<and> (\<exists>ns evs sent sent'.
        detect_events (case Map.empty ''abc'' of None \<Rightarrow> no_last | Some s \<Rightarrow> s)
          [''is_live'' \<mapsto> PBool True, ''viewers'' \<mapsto> PInt 150] [100]
          = Inr (ns, evs)
        \<and> process_streamer \<lparr>channel_id = Some ''abc'', webhook_url = Some ''https://hook''\<rparr>
             [100] [''is_live'' \<mapsto> PBool True, ''viewers'' \<mapsto> PInt 150]
             (\<lambda>i. PostRaised) Map.empty
          = Inr (Map.empty(''abc'' \<mapsto> ns), sent)
        \<and> process_streamer \<lparr>channel_id = Some ''abc'', webhook_url = None\<rparr>
             [100] [''is_live'' \<mapsto> PBool True, ''viewers'' \<mapsto> PInt 150]
             (\<lambda>i. Responded 204) Map.empty
          = Inr (Map.empty(''abc'' \<mapsto> ns), sent'))"
  using state_written_whatever_is_sent [of
      "\<lparr>channel_id = Some ''abc'', webhook_url = Some ''https://hook''\<rparr>" "''abc''"
      "\<lparr>channel_id = Some ''abc'', webhook_url = None\<rparr>" Map.empty
      "[''is_live'' \<mapsto> PBool True, ''viewers'' \<mapsto> PInt 150]" "[100]"
      "\<lambda>i. PostRaised" "\<lambda>i. Responded 204"]
  by simp

end
